theory Spec2Isabelle
  imports Complex_Main "HOL-Library.Sublist"
begin

section \<open>Address normalisation\<close>

text \<open>
  The manager's private method \<open>formatNumber\<close>:
  \<^verbatim>\<open>
  let cleaned = number.replace(/\D/g, '');
  if (!cleaned.includes('@')) {
      if (cleaned.includes('-')) { return `${cleaned}@g.us`; }
      return `${cleaned}@c.us`;
  }
  return cleaned;
  \<close>
  The class \<open>\D\<close> is every character other than the ten ASCII digits, and the
  replacement with the \<open>g\<close> flag deletes every match, so whatever the encoding of a
  character outside ASCII is, all of it is deleted. \<open>includes\<close> is used with
  one-character needles only, which is membership of that character.
\<close>

definition isDigit :: "char \<Rightarrow> bool" where
  "isDigit c = (c \<in> set ''0123456789'')"

definition replaceNonDigits :: "string \<Rightarrow> string" where
  "replaceNonDigits number = filter isDigit number"

definition str_includes :: "string \<Rightarrow> char \<Rightarrow> bool" where
  "str_includes s c = (c \<in> set s)"

definition formatNumber :: "string \<Rightarrow> string" where
  "formatNumber number =
     (let cleaned = replaceNonDigits number in
      if \<not> str_includes cleaned (CHR ''@'') then
        (if str_includes cleaned (CHR ''-'') then cleaned @ ''@g.us''
         else cleaned @ ''@c.us'')
      else cleaned)"

section \<open>Paths\<close>

text \<open>
  \<open>path.join\<close> and \<open>path.normalize\<close> of the runtime's POSIX \<open>path\<close> module. A path is
  cut at its separators; empty segments and \<open>.\<close> are dropped; \<open>..\<close> removes the segment
  before it, and is kept only where there is none and the path is relative. \<open>join\<close>
  drops empty arguments, puts a separator between the others and normalises.
\<close>

fun splitSlash :: "string \<Rightarrow> string list" where
  "splitSlash [] = [[]]"
| "splitSlash (c # cs) =
     (if c = CHR ''/'' then [] # splitSlash cs
      else (case splitSlash cs of
              [] \<Rightarrow> [[c]]
            | seg # segs \<Rightarrow> (c # seg) # segs))"

fun joinSlash :: "string list \<Rightarrow> string" where
  "joinSlash [] = []"
| "joinSlash [seg] = seg"
| "joinSlash (seg # segs) = seg @ ''/'' @ joinSlash segs"

fun normalizeString :: "bool \<Rightarrow> string list \<Rightarrow> string list \<Rightarrow> string list" where
  "normalizeString allowAboveRoot res [] = rev res"
| "normalizeString allowAboveRoot res (seg # segs) =
     (if seg = [] \<or> seg = ''.'' then normalizeString allowAboveRoot res segs
      else if seg = ''..'' then
        (case res of
           [] \<Rightarrow>
             normalizeString allowAboveRoot (if allowAboveRoot then [''..''] else []) segs
         | lastSeg # below \<Rightarrow>
             if lastSeg = ''..''
             then normalizeString allowAboveRoot
                    (if allowAboveRoot then ''..'' # res else res) segs
             else normalizeString allowAboveRoot below segs)
      else normalizeString allowAboveRoot (seg # res) segs)"

definition normalize :: "string \<Rightarrow> string" where
  "normalize path =
     (if path = [] then ''.''
      else
        let isAbsolute = (hd path = CHR ''/'');
            trailingSeparator = (last path = CHR ''/'');
            p = joinSlash (normalizeString (\<not> isAbsolute) [] (splitSlash path))
        in if p = []
           then (if isAbsolute then ''/'' else if trailingSeparator then ''./'' else ''.'')
           else (if isAbsolute then ''/'' else [])
                  @ p @ (if trailingSeparator then ''/'' else []))"

definition path_join :: "string \<Rightarrow> string \<Rightarrow> string" where
  "path_join a b =
     (case filter (\<lambda>arg. arg \<noteq> []) [a, b] of
        [] \<Rightarrow> ''.''
      | args \<Rightarrow> normalize (joinSlash args))"

section \<open>Data of the session manager\<close>

text \<open>
  A thrown \<open>Error\<close> carries its message. The manager's own errors are built from the
  instance id exactly as the template strings of the source build them.
\<close>

datatype error = Error string

definition alreadyExists :: "string \<Rightarrow> error" where
  "alreadyExists instanceId = Error (''Instance '' @ instanceId @ '' already exists'')"

definition notFound :: "string \<Rightarrow> error" where
  "notFound instanceId = Error (''Instance '' @ instanceId @ '' not found'')"


text \<open>The field \<open>status\<close> of \<open>WAInstance\<close>: \<open>'disconnected' | 'connecting' | 'connected' | 'qr'\<close>.\<close>

datatype status = Disconnected | Connecting | Connected | Qr

text \<open>The status column of the persisted instance row.\<close>

datatype db_status = DISCONNECTED | CONNECTING | CONNECTED

text \<open>
  \<open>interface WAInstance\<close>. The protocol client of an instance is an object of the
  external library; the model keeps its identity (a number) and records what is called on
  it. The source's field \<open>id\<close> is \<open>inst_id\<close> here.
\<close>

record WAInstance =
  client :: nat
  inst_id :: string
  status :: status
  qrCode :: "string option"
  qrCodeBase64 :: "string option"

text \<open>The twelve fields that \<open>formatMessage\<close> reads from a message of the library.\<close>

record Message =
  msg_id :: string
  msg_from :: string
  msg_to :: string
  body :: string
  msg_type :: string
  timestamp :: nat
  isForwarded :: bool
  isStatus :: bool
  isStarred :: bool
  fromMe :: bool
  hasMedia :: bool
  hasQuotedMsg :: bool

definition formatMessage :: "Message \<Rightarrow> Message" where
  "formatMessage msg =
     \<lparr>msg_id = msg_id msg, msg_from = msg_from msg, msg_to = msg_to msg, body = body msg,
      msg_type = msg_type msg, timestamp = timestamp msg, isForwarded = isForwarded msg,
      isStatus = isStatus msg, isStarred = isStarred msg, fromMe = fromMe msg,
      hasMedia = hasMedia msg, hasQuotedMsg = hasQuotedMsg msg\<rparr>"

text \<open>What is handed to \<open>client.sendMessage\<close> as content.\<close>

datatype content =
    Text string
  | Media string "string option"
  | MediaBase64 string string "string option" "string option"
  | Location real real "string option"
  | ContactCard string

text \<open>
  The contacts and chats of the library, with the fields the manager reads, and the
  objects the manager builds from them. A group chat has the fields of a chat and those
  that \<open>getGroupInfo\<close> reads after its cast.
\<close>

record Contact =
  contact_id :: string
  contact_number :: string
  contact_name :: "string option"
  contact_pushname :: string
  isUser :: bool
  contact_isGroup :: bool
  isMyContact :: bool
  isBlocked :: bool




record Chat =
  chat_id :: string
  chat_name :: string
  isGroup :: bool
  unreadCount :: nat
  chat_timestamp :: nat
  archived :: bool
  pinned :: bool
  isMuted :: bool

record Participant =
  participant_id :: string
  isAdmin :: bool
  isSuperAdmin :: bool

record GroupChat = Chat +
  group_description :: "string option"
  group_participants :: "Participant list option"
  group_createdAt :: "nat option"




text \<open>
  What \<open>client.createGroup\<close> resolves to, a string or an object whose \<open>gid\<close> and
  \<open>missingParticipants\<close> may be missing, and what \<open>createGroup\<close> returns from it: the \<open>gid\<close>
  is the string, or \<open>result.gid?._serialized || result\<close>.
\<close>

datatype create_group_result =
    ResultString string
  | ResultObject "string option" "string list option"




text \<open>
  The calls the manager makes on a protocol client, and on the message, contact and chat
  objects the client returned (named by the id they were fetched with).
\<close>

datatype client_call =
    Initialize
  | Destroy
  | Logout
  | SendMessage string content
  | GetContactById string
  | GetMessageById string
  | GetChatById string
  | React string string
  | DeleteMsg string bool
  | SendSeen string
  | Block string
  | Leave string
  | GetContacts
  | GetNumberId string
  | Unblock string
  | GetBlockedContacts
  | GetChats
  | Archive string
  | Unarchive string
  | Pin string
  | Unpin string
  | Mute string nat
  | Unmute string
  | DeleteChat string
  | FetchMessages string nat
  | CreateGroup string "string list"
  | AddParticipants string "string list"
  | RemoveParticipants string "string list"
  | PromoteParticipants string "string list"
  | DemoteParticipants string "string list"
  | SetSubject string string
  | SetDescription string string
  | GetInviteCode string
  | RevokeInvite string
  | AcceptInvite string
  | SetDisplayName string
  | SetProfilePicture string
  | SetStatus string

text \<open>The events the manager publishes with \<open>this.emit\<close>, each with its payload.\<close>

datatype emitted =
    EQr string string string
  | EReady string string string
  | EAuthenticated string
  | EAuthFailure string string
  | EDisconnected string string
  | EMessage string Message
  | EMessageCreate string Message
  | EMessageAck string string nat
  | EMessageRevokeEveryone string Message "Message option"
  | EGroupJoin string string
  | EGroupLeave string string
  | EGroupUpdate string string
  | ECall string string

datatype level = Info | Warn | ErrorLevel

text \<open>The columns of the persisted instance row that the manager writes.\<close>

record row =
  row_status :: db_status
  waNumber :: "string option"
  waName :: "string option"

text \<open>
  The manager and the world it acts on. \<open>instances\<close> is the \<open>Map\<close> of the class; its
  values are references into \<open>objects\<close>, because the handlers installed on a client keep
  mutating the instance object they closed over, whether or not the registry still holds
  it. \<open>files\<close> are the paths that exist on disk, \<open>table\<close> is the persisted instance table,
  \<open>clientCalls\<close> the calls issued to protocol clients so far, in order.
\<close>

record manager =
  waSessionPath :: string
  instances :: "string \<rightharpoonup> nat"
  objects :: "nat \<Rightarrow> WAInstance"
  nextRef :: nat
  files :: "string list"
  table :: "string \<rightharpoonup> row"
  clientCalls :: "(nat \<times> client_call) list"
  emittedEvents :: "emitted list"
  logs :: "(level \<times> string) list"

text \<open>
  What the collaborators answer during one operation: which client calls reject and with
  what error, whether the repository update rejects, what \<open>QRCode.toDataURL\<close> returns,
  the account data in \<open>client.info\<close>, whether \<open>MessageMedia.fromUrl\<close> rejects, whether
  the file system refuses a removal, the message \<open>sendMessage\<close> resolves to, whether
  \<open>getMessageById\<close> finds a message, and the data the queries of the client resolve to.
\<close>

record outcomes =
  fails :: "client_call \<Rightarrow> error option"
  updateFails :: "error option"
  toDataURL :: "string \<Rightarrow> error + string"
  info :: "string \<times> string"
  fromUrlFails :: "error option"
  rmFails :: "error option"
  sent :: Message
  found :: bool
  contactList :: "Contact list"
  theContact :: Contact
  numberId :: "string option"
  blockedList :: "Contact list"
  chatList :: "Chat list"
  theChat :: GroupChat
  fetchedMessages :: "Message list"
  createdGroup :: create_group_result
  inviteCode :: string
  revokedInviteCode :: string
  joinedGroupId :: string

section \<open>Primitive effects\<close>

text \<open>Assignment to fields of the instance object at a reference.\<close>

definition modify :: "manager \<Rightarrow> nat \<Rightarrow> (WAInstance \<Rightarrow> WAInstance) \<Rightarrow> manager" where
  "modify s r f = s\<lparr>objects := (objects s)(r := f (objects s r))\<rparr>"

text \<open>
  A call on a protocol client: it is recorded, and it rejects with the error the
  collaborator answers, if any.
\<close>

definition callClient ::
  "manager \<Rightarrow> nat \<Rightarrow> client_call \<Rightarrow> outcomes \<Rightarrow> (error + unit) \<times> manager" where
  "callClient s c call ext =
     ((case fails ext call of Some e \<Rightarrow> Inl e | None \<Rightarrow> Inr ()),
      s\<lparr>clientCalls := clientCalls s @ [(c, call)]\<rparr>)"

text \<open>
  \<open>this.emit\<close> and the logger: what is published and what is logged is recorded, in
  order. The listeners of the event bus are outside the class.
\<close>

definition emit :: "manager \<Rightarrow> emitted \<Rightarrow> manager" where
  "emit s e = s\<lparr>emittedEvents := emittedEvents s @ [e]\<rparr>"

definition logger :: "manager \<Rightarrow> level \<Rightarrow> string \<Rightarrow> manager" where
  "logger s l m = s\<lparr>logs := logs s @ [(l, m)]\<rparr>"

text \<open>
  The file system. \<open>files\<close> holds the paths that exist, each normalised and without a
  trailing separator; relative paths are relative to the working directory, which is the
  path \<open>.\<close>. A path given to the file system is looked up under that form (\<open>fsKey\<close>).

  \<open>existsSync\<close> never throws. \<open>rmSync\<close> is called with \<open>recursive: true\<close> and without
  \<open>force\<close>: it throws when the path does not exist, when the path is the working
  directory (the system refuses to remove \<open>.\<close>), and whenever the file system refuses
  (\<open>rmFails\<close>: permissions, a busy directory); otherwise the path and everything below
  it are gone. \<open>mkdirSync\<close> is called with \<open>recursive: true\<close> and creates the missing
  ancestors too.
\<close>

definition fsKey :: "string \<Rightarrow> string" where
  "fsKey p =
     (let q = normalize p in
      if q \<noteq> ''/'' \<and> last q = CHR ''/'' then butlast q else q)"

definition existsSync :: "string list \<Rightarrow> string \<Rightarrow> bool" where
  "existsSync fs p = (fsKey p \<in> set fs)"

definition underPath :: "string \<Rightarrow> string \<Rightarrow> bool" where
  "underPath p q = (q = p \<or> prefix (if p = ''/'' then p else p @ ''/'') q)"

definition rmSync :: "string list \<Rightarrow> string \<Rightarrow> outcomes \<Rightarrow> error + string list" where
  "rmSync fs p ext =
     (if fsKey p \<notin> set fs then Inl (Error ''ENOENT: no such file or directory'')
      else if fsKey p = ''.'' then Inl (Error ''EINVAL: invalid argument'')
      else (case rmFails ext of
              Some e \<Rightarrow> Inl e
            | None \<Rightarrow> Inr (filter (\<lambda>q. \<not> underPath (fsKey p) q) fs)))"

definition ancestors :: "string \<Rightarrow> string list" where
  "ancestors p = filter (\<lambda>q. q \<noteq> []) (map joinSlash (tl (prefixes (splitSlash p))))"

definition mkdirSync :: "string list \<Rightarrow> string \<Rightarrow> string list" where
  "mkdirSync fs p = fs @ filter (\<lambda>q. q \<notin> set fs) (ancestors (fsKey p))"

text \<open>\<open>path.join(env.waSessionPath, instanceId)\<close>.\<close>

definition sessionPath :: "manager \<Rightarrow> string \<Rightarrow> string" where
  "sessionPath s instanceId = path_join (waSessionPath s) instanceId"

text \<open>
  The block under the comment \<open>Remove session files\<close>, which \<open>logout\<close> and
  \<open>deleteInstance\<close> both contain; what \<open>rmSync\<close> throws leaves the block.
\<close>

definition removeSessionFiles :: "manager \<Rightarrow> string \<Rightarrow> outcomes \<Rightarrow> error + manager" where
  "removeSessionFiles s instanceId ext =
     (if existsSync (files s) (sessionPath s instanceId)
      then (case rmSync (files s) (sessionPath s instanceId) ext of
              Inl e \<Rightarrow> Inl e
            | Inr fs \<Rightarrow> Inr (s\<lparr>files := fs\<rparr>))
      else Inr s)"

text \<open>
  \<open>prisma.instance.update({ where: { id }, data })\<close>: rejects when the repository is
  unavailable and when there is no row with that id; otherwise the row is changed.
\<close>

definition prisma_update ::
  "manager \<Rightarrow> string \<Rightarrow> (row \<Rightarrow> row) \<Rightarrow> outcomes \<Rightarrow> error + manager" where
  "prisma_update s instanceId f ext =
     (case updateFails ext of
        Some e \<Rightarrow> Inl e
      | None \<Rightarrow>
          (case table s instanceId of
             None \<Rightarrow> Inl (Error ''Record to update not found.'')
           | Some rw \<Rightarrow> Inr (s\<lparr>table := (table s)(instanceId \<mapsto> f rw)\<rparr>)))"

section \<open>Construction, registry and persisted status\<close>

text \<open>The constructor: an empty registry, and \<open>ensureSessionDir\<close>.\<close>

definition ensureSessionDir :: "manager \<Rightarrow> manager" where
  "ensureSessionDir s =
     (if \<not> existsSync (files s) (waSessionPath s)
      then s\<lparr>files := mkdirSync (files s) (waSessionPath s)\<rparr>
      else s)"

definition unallocated :: WAInstance where
  "unallocated = \<lparr>client = 0, inst_id = [], status = Disconnected,
                   qrCode = None, qrCodeBase64 = None\<rparr>"

definition newManager :: "string \<Rightarrow> string list \<Rightarrow> (string \<rightharpoonup> row) \<Rightarrow> manager" where
  "newManager path fs tbl =
     ensureSessionDir
       \<lparr>waSessionPath = path, instances = Map.empty, objects = (\<lambda>_. unallocated),
        nextRef = 0, files = fs, table = tbl, clientCalls = [], emittedEvents = [],
        logs = []\<rparr>"

definition createInstance :: "manager \<Rightarrow> string \<Rightarrow> (error + nat) \<times> manager" where
  "createInstance s instanceId =
     (if instances s instanceId \<noteq> None then (Inl (alreadyExists instanceId), s)
      else
        let r = nextRef s;
            instance = \<lparr>client = r, inst_id = instanceId, status = Disconnected,
                        qrCode = None, qrCodeBase64 = None\<rparr>
        in (Inr r,
            s\<lparr>instances := (instances s)(instanceId \<mapsto> r),
              objects := (objects s)(r := instance),
              nextRef := Suc r\<rparr>))"

definition updateInstanceStatus ::
  "manager \<Rightarrow> string \<Rightarrow> db_status \<Rightarrow> outcomes \<Rightarrow> manager" where
  "updateInstanceStatus s instanceId st ext =
     (case prisma_update s instanceId (\<lambda>rw. rw\<lparr>row_status := st\<rparr>) ext of
        Inl e \<Rightarrow> logger s ErrorLevel ''Failed to update instance status''
      | Inr s' \<Rightarrow> s')"

definition getInstance :: "manager \<Rightarrow> string \<Rightarrow> WAInstance option" where
  "getInstance s instanceId = map_option (objects s) (instances s instanceId)"

definition getClient :: "manager \<Rightarrow> string \<Rightarrow> nat option" where
  "getClient s instanceId = map_option (\<lambda>r. client (objects s r)) (instances s instanceId)"

definition getQRCode :: "manager \<Rightarrow> string \<Rightarrow> string option \<times> string option" where
  "getQRCode s instanceId =
     (case getInstance s instanceId of
        None \<Rightarrow> (None, None)
      | Some instance \<Rightarrow> (qrCode instance, qrCodeBase64 instance))"

section \<open>Handlers of protocol notifications\<close>

text \<open>
  \<open>setupEventHandlers\<close> installs one handler per notification on the client of the
  instance at reference \<open>r\<close>. A handler is asynchronous: its result says whether its
  promise resolves or rejects, and with what.
\<close>

datatype notification =
    QrN string
  | ReadyN
  | AuthenticatedN
  | AuthFailureN string
  | DisconnectedN string
  | MessageN Message
  | MessageCreateN Message
  | MessageAckN Message nat
  | MessageRevokeEveryoneN Message "Message option"
  | GroupJoinN string
  | GroupLeaveN string
  | GroupUpdateN string
  | CallN string

fun setupEventHandlers ::
  "manager \<Rightarrow> nat \<Rightarrow> notification \<Rightarrow> outcomes \<Rightarrow> (error + unit) \<times> manager" where
  "setupEventHandlers s r (QrN qr) ext =
     (let s1 = modify s r (\<lambda>x. x\<lparr>status := Qr, qrCode := Some qr\<rparr>) in
      case toDataURL ext qr of
        Inl e \<Rightarrow> (Inl e, s1)
      | Inr b \<Rightarrow>
          let s2 = modify s1 r (\<lambda>x. x\<lparr>qrCodeBase64 := Some b\<rparr>);
              s3 = logger s2 Info ''QR Code generated'';
              s4 = emit s3 (EQr (inst_id (objects s r)) qr b)
          in (Inr (), updateInstanceStatus s4 (inst_id (objects s r)) CONNECTING ext))"
| "setupEventHandlers s r ReadyN ext =
     (let s1 = modify s r (\<lambda>x. x\<lparr>status := Connected, qrCode := None,
                                  qrCodeBase64 := None\<rparr>);
          s2 = logger s1 Info ''WhatsApp connected''
      in case prisma_update s2 (inst_id (objects s r))
                (\<lambda>rw. rw\<lparr>row_status := CONNECTED, waNumber := Some (fst (info ext)),
                          waName := Some (snd (info ext))\<rparr>) ext of
           Inl e \<Rightarrow> (Inl e, s2)
         | Inr s3 \<Rightarrow>
             (Inr (), emit s3 (EReady (inst_id (objects s r)) (fst (info ext))
                                 (snd (info ext)))))"
| "setupEventHandlers s r AuthenticatedN ext =
     (let s1 = logger s Info ''WhatsApp authenticated''
      in (Inr (), emit s1 (EAuthenticated (inst_id (objects s r)))))"
| "setupEventHandlers s r (AuthFailureN msg) ext =
     (let s1 = modify s r (\<lambda>x. x\<lparr>status := Disconnected\<rparr>);
          s2 = logger s1 ErrorLevel ''Auth failure'';
          s3 = updateInstanceStatus s2 (inst_id (objects s r)) DISCONNECTED ext
      in (Inr (), emit s3 (EAuthFailure (inst_id (objects s r)) msg)))"
| "setupEventHandlers s r (DisconnectedN reason) ext =
     (let s1 = modify s r (\<lambda>x. x\<lparr>status := Disconnected\<rparr>);
          s2 = logger s1 Warn ''WhatsApp disconnected'';
          s3 = updateInstanceStatus s2 (inst_id (objects s r)) DISCONNECTED ext
      in (Inr (), emit s3 (EDisconnected (inst_id (objects s r)) reason)))"
| "setupEventHandlers s r (MessageN msg) ext =
     (Inr (), emit s (EMessage (inst_id (objects s r)) (formatMessage msg)))"
| "setupEventHandlers s r (MessageCreateN msg) ext =
     (Inr (), emit s (EMessageCreate (inst_id (objects s r)) (formatMessage msg)))"
| "setupEventHandlers s r (MessageAckN msg ack) ext =
     (Inr (), emit s (EMessageAck (inst_id (objects s r)) (msg_id msg) ack))"
| "setupEventHandlers s r (MessageRevokeEveryoneN msg revokedMsg) ext =
     (Inr (), emit s (EMessageRevokeEveryone (inst_id (objects s r)) (formatMessage msg)
                        (map_option formatMessage revokedMsg)))"
| "setupEventHandlers s r (GroupJoinN n) ext =
     (Inr (), emit s (EGroupJoin (inst_id (objects s r)) n))"
| "setupEventHandlers s r (GroupLeaveN n) ext =
     (Inr (), emit s (EGroupLeave (inst_id (objects s r)) n))"
| "setupEventHandlers s r (GroupUpdateN n) ext =
     (Inr (), emit s (EGroupUpdate (inst_id (objects s r)) n))"
| "setupEventHandlers s r (CallN c) ext =
     (Inr (), emit s (ECall (inst_id (objects s r)) c))"

section \<open>Lifecycle commands\<close>

definition connect :: "manager \<Rightarrow> string \<Rightarrow> outcomes \<Rightarrow> (error + nat) \<times> manager" where
  "connect s instanceId ext =
     (case (case instances s instanceId of
              None \<Rightarrow> createInstance s instanceId
            | Some r \<Rightarrow> (Inr r, s)) of
        (Inl e, s1) \<Rightarrow> (Inl e, s1)
      | (Inr r, s1) \<Rightarrow>
          if status (objects s1 r) = Connected then (Inr r, s1)
          else
            let s2 = modify s1 r (\<lambda>x. x\<lparr>status := Connecting\<rparr>) in
            (case callClient s2 (client (objects s2 r)) Initialize ext of
               (Inl e, s3) \<Rightarrow> (Inl e, s3)
             | (Inr u, s3) \<Rightarrow> (Inr r, s3)))"

definition disconnect :: "manager \<Rightarrow> string \<Rightarrow> outcomes \<Rightarrow> (error + unit) \<times> manager" where
  "disconnect s instanceId ext =
     (case instances s instanceId of
        None \<Rightarrow> (Inl (notFound instanceId), s)
      | Some r \<Rightarrow>
          (case callClient s (client (objects s r)) Destroy ext of
             (Inl e, s1) \<Rightarrow> (Inl e, s1)
           | (Inr u, s1) \<Rightarrow>
               let s2 = modify s1 r (\<lambda>x. x\<lparr>status := Disconnected\<rparr>)
               in (Inr (), updateInstanceStatus s2 instanceId DISCONNECTED ext)))"

definition logout :: "manager \<Rightarrow> string \<Rightarrow> outcomes \<Rightarrow> (error + unit) \<times> manager" where
  "logout s instanceId ext =
     (case instances s instanceId of
        None \<Rightarrow> (Inl (notFound instanceId), s)
      | Some r \<Rightarrow>
          (case callClient s (client (objects s r)) Logout ext of
             (Inl e, s1) \<Rightarrow> (Inl e, s1)
           | (Inr u, s1) \<Rightarrow>
               (case callClient s1 (client (objects s1 r)) Destroy ext of
                  (Inl e, s2) \<Rightarrow> (Inl e, s2)
                | (Inr u, s2) \<Rightarrow>
                    let s3 = modify s2 r (\<lambda>x. x\<lparr>status := Disconnected\<rparr>) in
                    (case removeSessionFiles s3 instanceId ext of
                       Inl e \<Rightarrow> (Inl e, s3)
                     | Inr s4 \<Rightarrow>
                         let s5 = s4\<lparr>instances := (instances s4)(instanceId := None)\<rparr>
                         in (Inr (),
                             updateInstanceStatus s5 instanceId DISCONNECTED ext)))))"

text \<open>
  In \<open>deleteInstance\<close> the call of \<open>destroy\<close> sits in a \<open>try\<close> whose \<open>catch\<close> is empty;
  the removal of the session files is outside it.
\<close>

definition deleteInstance :: "manager \<Rightarrow> string \<Rightarrow> outcomes \<Rightarrow> (error + unit) \<times> manager" where
  "deleteInstance s instanceId ext =
     (let s1 = (case instances s instanceId of
                  None \<Rightarrow> s
                | Some r \<Rightarrow> snd (callClient s (client (objects s r)) Destroy ext))
      in case removeSessionFiles s1 instanceId ext of
           Inl e \<Rightarrow> (Inl e, s1)
         | Inr s2 \<Rightarrow> (Inr (), s2\<lparr>instances := (instances s2)(instanceId := None)\<rparr>))"

section \<open>Send and query operations\<close>

text \<open>
  Every method below starts with the same two lines,
  \<^verbatim>\<open>
  const client = this.getClient(instanceId);
  if (!client) throw new Error(`Instance ${instanceId} not connected`);
  \<close>
  and then works on the client and on what the client returned. A parameter with a
  default value is an option here, and the default is taken where it is missing. In
  \<open>sendMedia\<close> the file name of the options is not read. \<open>MessageMedia.fromUrl\<close> is
  not a call on the client; it can reject before the client is reached.
\<close>

subsection \<open>Message methods\<close>








subsection \<open>Contact methods\<close>







subsection \<open>Chat methods\<close>












subsection \<open>Group methods\<close>













subsection \<open>Profile methods\<close>




section \<open>Delegation, and example worlds\<close>


text \<open>Collaborators that answer every call with success.\<close>

definition allSucceed :: outcomes where
  "allSucceed =
     \<lparr>fails = (\<lambda>_. None), updateFails = None,
      toDataURL = (\<lambda>qr. Inr (''data:image/png;base64,'' @ qr)),
      info = (''5511999999999'', ''Ana''), fromUrlFails = None, rmFails = None,
      sent = \<lparr>msg_id = ''true_5511988887777@c.us_3EB0'', msg_from = ''5511999999999@c.us'',
              msg_to = ''5511988887777@c.us'', body = ''hello'', msg_type = ''chat'',
              timestamp = 1700000000, isForwarded = False, isStatus = False,
              isStarred = False, fromMe = True, hasMedia = False, hasQuotedMsg = False\<rparr>,
      found = True, contactList = [],
      theContact = \<lparr>contact_id = ''5511988887777@c.us'', contact_number = ''5511988887777'',
                     contact_name = None, contact_pushname = ''Bia'', isUser = True,
                     contact_isGroup = False, isMyContact = False, isBlocked = False\<rparr>,
      numberId = Some ''5511988887777@c.us'', blockedList = [], chatList = [],
      theChat = \<lparr>chat_id = ''1203630-1234567890@g.us'', chat_name = ''Team'',
                  isGroup = True, unreadCount = 0, chat_timestamp = 1700000000,
                  archived = False, pinned = False, isMuted = False,
                  group_description = None, group_participants = None,
                  group_createdAt = None\<rparr>,
      fetchedMessages = [], createdGroup = ResultString ''1203630-1234567890@g.us'',
      inviteCode = ''AbCdEf'', revokedInviteCode = ''GhIjKl'',
      joinedGroupId = ''1203630-1234567890@g.us''\<rparr>"

text \<open>
  A manager started in a working directory with nothing in it, with one persisted row
  for instance \<open>a\<close>.
\<close>

definition started :: manager where
  "started = newManager ''./sessions'' [''.'']
               [''a'' \<mapsto> \<lparr>row_status = DISCONNECTED, waNumber = None, waName = None\<rparr>]"

text \<open>
  States reached from there: instance \<open>a\<close> after \<open>connect\<close> and a QR notification; then
  after \<open>ready\<close>; then after the \<open>disconnect\<close> command. \<open>withCredentials\<close> adds the
  session directory that the protocol client keeps for \<open>a\<close>.
\<close>

definition awaitingScan :: manager where
  "awaitingScan =
     snd (setupEventHandlers (snd (connect started ''a'' allSucceed)) 0 (QrN ''2@abc'')
            allSucceed)"

definition connectedA :: manager where
  "connectedA = snd (setupEventHandlers awaitingScan 0 ReadyN allSucceed)"


definition withCredentials :: "manager \<Rightarrow> manager" where
  "withCredentials s =
     s\<lparr>files := files s @ [''sessions/a'', ''sessions/a/session-a'']\<rparr>"

text \<open>Collaborators of which one call fails.\<close>

definition logoutRejects :: outcomes where
  "logoutRejects =
     allSucceed\<lparr>fails := (\<lambda>c. if c = Logout then Some (Error ''Target closed'') else None)\<rparr>"

definition destroyRejects :: outcomes where
  "destroyRejects =
     allSucceed\<lparr>fails := (\<lambda>c. if c = Destroy then Some (Error ''Target closed'') else None)\<rparr>"

definition repositoryDown :: outcomes where
  "repositoryDown = allSucceed\<lparr>updateFails := Some (Error ''Can't reach database server'')\<rparr>"

section \<open>Properties of the address normalisation\<close>

lemma cleaned_only_digits: "c \<in> set (replaceNonDigits s) \<Longrightarrow> isDigit c"
  by (simp add: replaceNonDigits_def)

lemma cleaned_no_at: "\<not> str_includes (replaceNonDigits s) (CHR ''@'')"
  by (auto simp: str_includes_def replaceNonDigits_def isDigit_def)

lemma cleaned_no_dash: "\<not> str_includes (replaceNonDigits s) (CHR ''-'')"
  by (auto simp: str_includes_def replaceNonDigits_def isDigit_def)

lemma formatNumber_always_individual:
  "formatNumber s = replaceNonDigits s @ ''@c.us''"
  by (simp add: formatNumber_def Let_def cleaned_no_at cleaned_no_dash)

lemma replaceNonDigits_append:
  "replaceNonDigits (xs @ ys) = replaceNonDigits xs @ replaceNonDigits ys"
  by (simp add: replaceNonDigits_def)

lemma replaceNonDigits_idem: "replaceNonDigits (replaceNonDigits s) = replaceNonDigits s"
  by (simp add: replaceNonDigits_def)

lemma suffix_has_no_digit: "replaceNonDigits ''@c.us'' = []"
  by (simp add: replaceNonDigits_def isDigit_def)

text \<open>
  C3 (evaluation of the code at the claim's own example). The claim says that an address
  with a group separator gets the group suffix and that an address that already carries a
  domain suffix comes back unchanged. The code deletes the separator and the \<open>@\<close> together
  with every other non-digit before it looks for them, so both tests are dead: the group
  address of the example and an address ending in \<open>@g.us\<close> both come back with the
  individual-contact suffix.
\<close>

theorem formatNumber_group_address_gets_individual_suffix:
  "formatNumber ''1203630-1234567890'' = ''12036301234567890@c.us''
   \<and> formatNumber ''1203630-1234567890@g.us'' = ''12036301234567890@c.us''
   \<and> formatNumber ''1203630-1234567890@g.us'' \<noteq> ''1203630-1234567890@g.us''"
  by (simp add: formatNumber_def replaceNonDigits_def str_includes_def isDigit_def)

text \<open>
  C9. For a bare number, one with no domain suffix (no \<open>@\<close>) and no group separator
  among its cleaned characters, the result is the digits of the input, in order, followed
  by the individual-contact suffix \<open>@c.us\<close>.
\<close>

theorem formatNumber_bare_number:
  assumes "\<not> str_includes s (CHR ''@'')"
    and "\<not> str_includes (replaceNonDigits s) (CHR ''-'')"
  shows "formatNumber s = filter isDigit s @ ''@c.us''"
  using formatNumber_always_individual [of s] by (simp add: replaceNonDigits_def)

theorem formatNumber_bare_number_witness:
  "\<not> str_includes ''+55 11 99999-9999'' (CHR ''@'')
   \<and> \<not> str_includes (replaceNonDigits ''+55 11 99999-9999'') (CHR ''-'')
   \<and> formatNumber ''+55 11 99999-9999'' = ''5511999999999@c.us''"
proof -
  have a: "\<not> str_includes ''+55 11 99999-9999'' (CHR ''@'')"
    by (simp add: str_includes_def)
  have b: "\<not> str_includes (replaceNonDigits ''+55 11 99999-9999'') (CHR ''-'')"
    by (rule cleaned_no_dash)
  show ?thesis
    using a b formatNumber_bare_number [OF a b] by (simp add: isDigit_def)
qed

text \<open>
  C10. Normalising twice is the same as normalising once: the first pass leaves digits
  followed by \<open>@c.us\<close>, and the second pass deletes that suffix and appends it again.
\<close>

theorem formatNumber_idempotent: "formatNumber (formatNumber s) = formatNumber s"
  by (simp add: formatNumber_always_individual replaceNonDigits_append
      replaceNonDigits_idem suffix_has_no_digit)

section \<open>Properties of the session manager\<close>

lemmas prim_defs = modify_def callClient_def emit_def logger_def existsSync_def fsKey_def
  normalize_def path_join_def ancestors_def
  underPath_def rmSync_def mkdirSync_def sessionPath_def removeSessionFiles_def
  prisma_update_def ensureSessionDir_def newManager_def createInstance_def
  updateInstanceStatus_def getInstance_def getClient_def

lemmas example_defs = started_def allSucceed_def awaitingScan_def connectedA_def
  withCredentials_def

subsection \<open>QR fields and status\<close>

text \<open>
  C1 (evaluation of the code). The claim says the QR fields are populated exactly while
  the status is \<open>qr\<close>, and that every transition into connected or disconnected clears
  them. Only the \<open>ready\<close> handler clears them. After a QR notification, each of the
  \<open>auth_failure\<close> notification, the \<open>disconnected\<close> notification and the \<open>disconnect\<close>
  command leaves instance \<open>a\<close> with status disconnected and both QR fields still set.
\<close>

theorem qr_fields_kept_on_disconnection:
  "getInstance awaitingScan ''a'' =
     Some \<lparr>client = 0, inst_id = ''a'', status = Qr, qrCode = Some ''2@abc'',
           qrCodeBase64 = Some ''data:image/png;base64,2@abc''\<rparr>
   \<and> getInstance (snd (setupEventHandlers awaitingScan 0 (AuthFailureN ''bad session'')
                         allSucceed)) ''a'' =
     Some \<lparr>client = 0, inst_id = ''a'', status = Disconnected, qrCode = Some ''2@abc'',
           qrCodeBase64 = Some ''data:image/png;base64,2@abc''\<rparr>
   \<and> getInstance (snd (setupEventHandlers awaitingScan 0 (DisconnectedN ''NAVIGATION'')
                         allSucceed)) ''a'' =
     Some \<lparr>client = 0, inst_id = ''a'', status = Disconnected, qrCode = Some ''2@abc'',
           qrCodeBase64 = Some ''data:image/png;base64,2@abc''\<rparr>
   \<and> getInstance (snd (disconnect awaitingScan ''a'' allSucceed)) ''a'' =
     Some \<lparr>client = 0, inst_id = ''a'', status = Disconnected, qrCode = Some ''2@abc'',
           qrCodeBase64 = Some ''data:image/png;base64,2@abc''\<rparr>
   \<and> getQRCode (snd (disconnect awaitingScan ''a'' allSucceed)) ''a'' =
     (Some ''2@abc'', Some ''data:image/png;base64,2@abc'')
   \<and> getInstance connectedA ''a'' =
     Some \<lparr>client = 0, inst_id = ''a'', status = Connected, qrCode = None,
           qrCodeBase64 = None\<rparr>"
  by (simp add: example_defs connect_def disconnect_def getQRCode_def prim_defs Let_def)

subsection \<open>Persistence failures in notification handlers\<close>

text \<open>
  The handlers that persist through \<open>updateInstanceStatus\<close> resolve whatever the
  repository does; the \<open>ready\<close> handler awaits the repository update itself, outside any
  \<open>try\<close>, and rejects with the repository's error before it publishes the event.
\<close>

lemma status_handlers_resolve:
  "fst (setupEventHandlers s r (AuthFailureN m) ext) = Inr ()"
  "fst (setupEventHandlers s r (DisconnectedN m) ext) = Inr ()"
  "toDataURL ext q = Inr b \<Longrightarrow> fst (setupEventHandlers s r (QrN q) ext) = Inr ()"
  by (simp_all add: Let_def)

lemma ready_handler_rejects:
  "updateFails ext = Some e \<Longrightarrow>
   setupEventHandlers s r ReadyN ext =
     (Inl e,
      logger (modify s r (\<lambda>x. x\<lparr>status := Connected, qrCode := None,
                                 qrCodeBase64 := None\<rparr>))
        Info ''WhatsApp connected'')"
  by (simp add: prisma_update_def Let_def)

text \<open>
  C5 (evaluation of the code). The claim says a repository failure never leaves a
  notification handler and is logged there. With the repository down, the \<open>ready\<close>
  handler of instance \<open>a\<close> rejects with the repository's error, publishes no event and
  logs no failure; the in-memory status is connected all the same. The \<open>disconnected\<close>
  handler, in the same situation, resolves and logs the failure.
\<close>

theorem ready_handler_propagates_repository_failure:
  "fst (setupEventHandlers awaitingScan 0 ReadyN repositoryDown)
     = Inl (Error ''Can't reach database server'')
   \<and> emittedEvents (snd (setupEventHandlers awaitingScan 0 ReadyN repositoryDown))
     = emittedEvents awaitingScan
   \<and> logs (snd (setupEventHandlers awaitingScan 0 ReadyN repositoryDown))
     = logs awaitingScan @ [(Info, ''WhatsApp connected'')]
   \<and> status (objects (snd (setupEventHandlers awaitingScan 0 ReadyN repositoryDown)) 0)
     = Connected
   \<and> fst (setupEventHandlers awaitingScan 0 (DisconnectedN ''NAVIGATION'') repositoryDown)
     = Inr ()
   \<and> logs (snd (setupEventHandlers awaitingScan 0 (DisconnectedN ''NAVIGATION'')
                   repositoryDown))
     = logs awaitingScan @ [(Warn, ''WhatsApp disconnected''),
                            (ErrorLevel, ''Failed to update instance status'')]"
  by (simp add: example_defs repositoryDown_def connect_def prim_defs Let_def)

subsection \<open>Teardown failures\<close>

text \<open>
  C4 (evaluation of the code). The claim says \<open>logout\<close> completes although the client's
  teardown fails. In \<open>logout\<close> neither \<open>client.logout()\<close> nor \<open>client.destroy()\<close> is
  guarded: when either rejects, the command rejects with that error, instance \<open>a\<close> stays
  in the registry, its session directory stays on disk and the persisted status stays
  \<open>CONNECTED\<close>. \<open>deleteInstance\<close>, which guards \<open>destroy\<close>, completes in the same
  situation and removes both.
\<close>

theorem logout_rejects_on_teardown_failure:
  "fst (logout (withCredentials connectedA) ''a'' logoutRejects)
     = Inl (Error ''Target closed'')
   \<and> instances (snd (logout (withCredentials connectedA) ''a'' logoutRejects)) ''a''
     = Some 0
   \<and> existsSync (files (snd (logout (withCredentials connectedA) ''a'' logoutRejects)))
       ''./sessions/a''
   \<and> map_option row_status
       (table (snd (logout (withCredentials connectedA) ''a'' logoutRejects)) ''a'')
     = Some CONNECTED
   \<and> fst (logout (withCredentials connectedA) ''a'' destroyRejects)
     = Inl (Error ''Target closed'')
   \<and> instances (snd (logout (withCredentials connectedA) ''a'' destroyRejects)) ''a''
     = Some 0
   \<and> existsSync (files (snd (logout (withCredentials connectedA) ''a'' destroyRejects)))
       ''./sessions/a''
   \<and> map_option row_status
       (table (snd (logout (withCredentials connectedA) ''a'' destroyRejects)) ''a'')
     = Some CONNECTED
   \<and> fst (deleteInstance (withCredentials connectedA) ''a'' destroyRejects) = Inr ()
   \<and> instances (snd (deleteInstance (withCredentials connectedA) ''a'' destroyRejects))
       ''a'' = None
   \<and> \<not> existsSync
         (files (snd (deleteInstance (withCredentials connectedA) ''a'' destroyRejects)))
         ''./sessions/a''"
  by (simp add: example_defs logoutRejects_def destroyRejects_def connect_def logout_def
      deleteInstance_def prim_defs Let_def)

subsection \<open>Registry and file-system lemmas\<close>

lemma connect_unregistered:
  "instances s i = None \<Longrightarrow>
   connect s i ext =
     ((case fails ext Initialize of None \<Rightarrow> Inr (nextRef s) | Some e \<Rightarrow> Inl e),
      s\<lparr>instances := (instances s)(i \<mapsto> nextRef s),
        objects := (objects s)(nextRef s :=
          \<lparr>client = nextRef s, inst_id = i, status = Connecting, qrCode = None,
           qrCodeBase64 = None\<rparr>),
        nextRef := Suc (nextRef s),
        clientCalls := clientCalls s @ [(nextRef s, Initialize)]\<rparr>)"
  by (simp add: connect_def createInstance_def modify_def callClient_def Let_def
      split: option.splits)

lemma rmSync_removes:
  "rmSync fs p ext = Inr fs' \<Longrightarrow> \<not> existsSync fs' p"
  by (auto simp: rmSync_def existsSync_def underPath_def split: if_splits option.splits)

lemma removeSessionFiles_removes:
  "removeSessionFiles s i ext = Inr s' \<Longrightarrow> \<not> existsSync (files s') (sessionPath s i)"
  by (auto simp: removeSessionFiles_def dest: rmSync_removes split: if_splits sum.splits)

lemma removeSessionFiles_fields:
  assumes "removeSessionFiles s i ext = Inr s'"
  shows "instances s' = instances s" "waSessionPath s' = waSessionPath s"
    "clientCalls s' = clientCalls s" "objects s' = objects s" "nextRef s' = nextRef s"
    "table s' = table s"
  using assms by (auto simp: removeSessionFiles_def split: if_splits sum.splits)

lemma updateInstanceStatus_fields [simp]:
  "instances (updateInstanceStatus s i st ext) = instances s"
  "waSessionPath (updateInstanceStatus s i st ext) = waSessionPath s"
  "files (updateInstanceStatus s i st ext) = files s"
  "clientCalls (updateInstanceStatus s i st ext) = clientCalls s"
  "objects (updateInstanceStatus s i st ext) = objects s"
  "nextRef (updateInstanceStatus s i st ext) = nextRef s"
  by (simp_all add: updateInstanceStatus_def prisma_update_def logger_def
      split: option.splits)

text \<open>A \<open>logout\<close> that resolves went through every step of the method.\<close>

lemma logout_success:
  assumes "fst (logout s i ext) = Inr ()"
  shows "\<exists>r s4. instances s i = Some r \<and> fails ext Logout = None \<and> fails ext Destroy = None
     \<and> removeSessionFiles
          (modify (s\<lparr>clientCalls := clientCalls s @
                      [(client (objects s r), Logout), (client (objects s r), Destroy)]\<rparr>)
             r (\<lambda>x. x\<lparr>status := Disconnected\<rparr>)) i ext = Inr s4
     \<and> snd (logout s i ext) =
        updateInstanceStatus (s4\<lparr>instances := (instances s4)(i := None)\<rparr>) i DISCONNECTED ext"
  using assms
  by (auto simp: logout_def callClient_def modify_def Let_def split: option.splits sum.splits)

subsection \<open>Logout, then connect\<close>

text \<open>
  C6. After a \<open>logout\<close> that succeeded, the registry has no entry for the id and the
  session directory of the id does not exist; a following \<open>connect\<close> on the id does what
  \<open>connect\<close> does for an id that was never registered: it creates a new instance object
  with a new client, registers it, sets it to connecting without QR fields, and calls
  \<open>initialize\<close> on the new client.
\<close>

theorem logout_then_connect_creates_fresh_handle:
  assumes "fst (logout s i ext) = Inr ()"
  shows "instances (snd (logout s i ext)) i = None
    \<and> \<not> existsSync (files (snd (logout s i ext))) (sessionPath (snd (logout s i ext)) i)
    \<and> connect (snd (logout s i ext)) i ext' =
        ((case fails ext' Initialize of
            None \<Rightarrow> Inr (nextRef (snd (logout s i ext)))
          | Some e \<Rightarrow> Inl e),
         (snd (logout s i ext))
           \<lparr>instances :=
              (instances (snd (logout s i ext)))(i \<mapsto> nextRef (snd (logout s i ext))),
            objects :=
              (objects (snd (logout s i ext)))(nextRef (snd (logout s i ext)) :=
                 \<lparr>client = nextRef (snd (logout s i ext)), inst_id = i,
                  status = Connecting, qrCode = None, qrCodeBase64 = None\<rparr>),
            nextRef := Suc (nextRef (snd (logout s i ext))),
            clientCalls := clientCalls (snd (logout s i ext))
                             @ [(nextRef (snd (logout s i ext)), Initialize)]\<rparr>)"
proof -
  obtain r s4 where rm: "removeSessionFiles
          (modify (s\<lparr>clientCalls := clientCalls s @
                      [(client (objects s r), Logout), (client (objects s r), Destroy)]\<rparr>)
             r (\<lambda>x. x\<lparr>status := Disconnected\<rparr>)) i ext = Inr s4"
    and s': "snd (logout s i ext) =
        updateInstanceStatus (s4\<lparr>instances := (instances s4)(i := None)\<rparr>) i DISCONNECTED ext"
    using logout_success [OF assms] by blast
  have gone: "instances (snd (logout s i ext)) i = None"
    by (simp add: s')
  have nofile:
    "\<not> existsSync (files (snd (logout s i ext))) (sessionPath (snd (logout s i ext)) i)"
    using removeSessionFiles_removes [OF rm] removeSessionFiles_fields(2) [OF rm]
    by (simp add: s' sessionPath_def modify_def)
  show ?thesis
    using gone nofile connect_unregistered [OF gone, of ext'] by simp
qed

theorem logout_then_connect_creates_fresh_handle_witness:
  "fst (logout (withCredentials connectedA) ''a'' allSucceed) = Inr ()
   \<and> instances (snd (logout (withCredentials connectedA) ''a'' allSucceed)) ''a'' = None
   \<and> files (snd (logout (withCredentials connectedA) ''a'' allSucceed)) = [''.'', ''sessions'']
   \<and> fst (connect (snd (logout (withCredentials connectedA) ''a'' allSucceed)) ''a''
            allSucceed) = Inr 1
   \<and> getInstance
       (snd (connect (snd (logout (withCredentials connectedA) ''a'' allSucceed)) ''a''
               allSucceed)) ''a''
       = Some \<lparr>client = 1, inst_id = ''a'', status = Connecting, qrCode = None,
               qrCodeBase64 = None\<rparr>"
proof -
  have h: "fst (logout (withCredentials connectedA) ''a'' allSucceed) = Inr ()"
    by (simp add: example_defs connect_def logout_def prim_defs Let_def)
  have n: "nextRef (snd (logout (withCredentials connectedA) ''a'' allSucceed)) = 1"
    by (simp add: example_defs connect_def logout_def prim_defs Let_def)
  have f: "files (snd (logout (withCredentials connectedA) ''a'' allSucceed))
             = [''.'', ''sessions'']"
    by (simp add: example_defs connect_def logout_def prim_defs Let_def)
  have a: "fails allSucceed Initialize = None"
    by (simp add: allSucceed_def)
  show ?thesis
    using h f logout_then_connect_creates_fresh_handle [OF h, of allSucceed]
    by (simp add: n a getInstance_def)
qed

subsection \<open>Connect on a connected instance\<close>

text \<open>
  C7. When the id is registered and its handle has status connected, \<open>connect\<close> returns
  that handle and changes nothing: the instance object, the registry and the list of
  calls made on protocol clients are the same afterwards, so \<open>initialize\<close> is not called
  again.
\<close>

theorem connect_connected_is_noop:
  "instances s i = Some r \<Longrightarrow> status (objects s r) = Connected
   \<Longrightarrow> connect s i ext = (Inr r, s)"
  by (simp add: connect_def)

theorem connect_connected_is_noop_witness:
  "instances connectedA ''a'' = Some 0 \<and> status (objects connectedA 0) = Connected
   \<and> connect connectedA ''a'' allSucceed = (Inr 0, connectedA)"
proof -
  have a: "instances connectedA ''a'' = Some 0"
    by (simp add: example_defs connect_def prim_defs Let_def)
  have b: "status (objects connectedA 0) = Connected"
    by (simp add: example_defs connect_def prim_defs Let_def)
  show ?thesis
    using a b connect_connected_is_noop [OF a b, of allSucceed] by simp
qed

subsection \<open>Commands on an id that is not registered\<close>

text \<open>
  C8, as stated, fails. The claim says that \<open>deleteInstance\<close> succeeds for every id that
  is not in the registry. The id \<open>..\<close> is not in the registry of a manager that has just
  started; its session path, joined from \<open>./sessions\<close> and \<open>..\<close>, is the working
  directory, which exists, and whose removal the system refuses: \<open>deleteInstance\<close>
  rejects with that error.
\<close>

theorem delete_rejects_for_parent_id:
  "instances started ''..'' = None
   \<and> sessionPath started ''..'' = ''.''
   \<and> existsSync (files started) (sessionPath started ''..'')
   \<and> fst (deleteInstance started ''..'' allSucceed) = Inl (Error ''EINVAL: invalid argument'')
   \<and> fst (deleteInstance started ''..'' allSucceed) \<noteq> Inr ()"
  by (simp add: example_defs deleteInstance_def prim_defs Let_def)

text \<open>
  C8, amended. For an id with no entry in the registry, \<open>disconnect\<close> fails with the
  not-found error and changes nothing. \<open>deleteInstance\<close> on such an id completes
  without an error unless the session path of the id exists and its removal throws: it
  touches no protocol client, leaves the registry as it was, and afterwards there is no
  session directory for the id on disk. When the session path exists and its removal
  throws, \<open>deleteInstance\<close> rejects with what the removal threw.
\<close>

theorem delete_absent_succeeds_unless_removal_throws:
  assumes "instances s i = None"
  shows "disconnect s i ext = (Inl (notFound i), s)
    \<and> ((existsSync (files s) (sessionPath s i)
          \<longrightarrow> \<not> isl (rmSync (files s) (sessionPath s i) ext))
        \<longrightarrow> fst (deleteInstance s i ext) = Inr ()
          \<and> \<not> existsSync (files (snd (deleteInstance s i ext))) (sessionPath s i)
          \<and> instances (snd (deleteInstance s i ext)) = instances s
          \<and> clientCalls (snd (deleteInstance s i ext)) = clientCalls s)
    \<and> (existsSync (files s) (sessionPath s i)
          \<and> rmSync (files s) (sessionPath s i) ext = Inl e
        \<longrightarrow> fst (deleteInstance s i ext) = Inl e)"
proof (intro conjI impI)
  show "disconnect s i ext = (Inl (notFound i), s)"
    using assms by (simp add: disconnect_def)
next
  assume ok: "existsSync (files s) (sessionPath s i)
          \<longrightarrow> \<not> isl (rmSync (files s) (sessionPath s i) ext)"
  have "\<exists>s2. removeSessionFiles s i ext = Inr s2"
    using ok
    by (cases "rmSync (files s) (sessionPath s i) ext";
        cases "existsSync (files s) (sessionPath s i)")
       (simp_all add: removeSessionFiles_def)
  then obtain s2 where rm: "removeSessionFiles s i ext = Inr s2"
    by blast
  have d: "deleteInstance s i ext = (Inr (), s2\<lparr>instances := (instances s2)(i := None)\<rparr>)"
    using assms rm by (simp add: deleteInstance_def)
  show "fst (deleteInstance s i ext) = Inr ()"
    by (simp add: d)
  show "\<not> existsSync (files (snd (deleteInstance s i ext))) (sessionPath s i)"
    using removeSessionFiles_removes [OF rm] by (simp add: d)
  show "instances (snd (deleteInstance s i ext)) = instances s"
    using assms removeSessionFiles_fields(1) [OF rm] by (auto simp: d)
  show "clientCalls (snd (deleteInstance s i ext)) = clientCalls s"
    using removeSessionFiles_fields(3) [OF rm] by (simp add: d)
next
  assume "existsSync (files s) (sessionPath s i)
          \<and> rmSync (files s) (sessionPath s i) ext = Inl e"
  then show "fst (deleteInstance s i ext) = Inl e"
    using assms by (simp add: deleteInstance_def removeSessionFiles_def)
qed

theorem delete_absent_succeeds_unless_removal_throws_witness:
  "instances (withCredentials started) ''a'' = None
   \<and> existsSync (files (withCredentials started)) (sessionPath (withCredentials started) ''a'')
   \<and> \<not> isl (rmSync (files (withCredentials started))
               (sessionPath (withCredentials started) ''a'') allSucceed)
   \<and> fst (deleteInstance (withCredentials started) ''a'' allSucceed) = Inr ()
   \<and> files (snd (deleteInstance (withCredentials started) ''a'' allSucceed))
       = [''.'', ''sessions'']
   \<and> disconnect (withCredentials started) ''a'' allSucceed
       = (Inl (Error ''Instance a not found''), withCredentials started)
   \<and> instances started ''..'' = None
   \<and> existsSync (files started) (sessionPath started ''..'')
   \<and> rmSync (files started) (sessionPath started ''..'') allSucceed
       = Inl (Error ''EINVAL: invalid argument'')
   \<and> fst (deleteInstance started ''..'' allSucceed) = Inl (Error ''EINVAL: invalid argument'')"
proof -
  have h: "instances (withCredentials started) ''a'' = None"
    by (simp add: example_defs prim_defs)
  have x: "existsSync (files (withCredentials started))
             (sessionPath (withCredentials started) ''a'')"
    by (simp add: example_defs prim_defs)
  have r: "\<not> isl (rmSync (files (withCredentials started))
                     (sessionPath (withCredentials started) ''a'') allSucceed)"
    by (simp add: example_defs prim_defs)
  have f: "files (snd (deleteInstance (withCredentials started) ''a'' allSucceed))
             = [''.'', ''sessions'']"
    by (simp add: example_defs deleteInstance_def prim_defs Let_def)
  have h': "instances started ''..'' = None"
    by (simp add: example_defs prim_defs)
  have x': "existsSync (files started) (sessionPath started ''..'')"
    by (simp add: example_defs prim_defs)
  have r': "rmSync (files started) (sessionPath started ''..'') allSucceed
              = Inl (Error ''EINVAL: invalid argument'')"
    by (simp add: example_defs prim_defs)
  show ?thesis
    using h x r f h' x' r'
      delete_absent_succeeds_unless_removal_throws [OF h, of allSucceed]
      delete_absent_succeeds_unless_removal_throws
        [OF h', of allSucceed "Error ''EINVAL: invalid argument''"]
    by (simp add: notFound_def)
qed

subsection \<open>The guard of the send and query operations\<close>





end
